theory Spec2Isabelle
  imports Complex_Main "HOL-Library.AList"
begin

section \<open>Strings and paths\<close>

text \<open>
  A Python \<open>str\<close> is modelled as a \<open>string\<close>: the list of its code points, every one of
  them below 256 (the range of \<open>char\<close>). The functions of this section are the string
  and path operations of the Python library that \<open>stac.py\<close> calls, restricted to that
  range.
\<close>

definition code_point :: "char \<Rightarrow> nat" where
  "code_point c = of_char c"

text \<open>\<open>str.lower\<close>, one code point at a time: A to Z and the upper-case letters of
  Latin-1 (192 to 214, 216 to 222) move up by 32, every other code point stays.\<close>

definition lower_char :: "char \<Rightarrow> char" where
  "lower_char c =
     (if (65 \<le> code_point c \<and> code_point c \<le> 90)
         \<or> (192 \<le> code_point c \<and> code_point c \<le> 214)
         \<or> (216 \<le> code_point c \<and> code_point c \<le> 222)
      then char_of (code_point c + 32) else c)"

definition str_lower :: "string \<Rightarrow> string" where
  "str_lower s = map lower_char s"

text \<open>The class \<open>\w\<close> of the \<open>re\<close> module on a \<open>str\<close> pattern: letters, digits,
  numeric characters and the underscore.\<close>

definition is_word_char :: "char \<Rightarrow> bool" where
  "is_word_char c =
     ((48 \<le> code_point c \<and> code_point c \<le> 57)
      \<or> (65 \<le> code_point c \<and> code_point c \<le> 90)
      \<or> code_point c = 95
      \<or> (97 \<le> code_point c \<and> code_point c \<le> 122)
      \<or> code_point c = 170
      \<or> (178 \<le> code_point c \<and> code_point c \<le> 179)
      \<or> code_point c = 181
      \<or> (185 \<le> code_point c \<and> code_point c \<le> 186)
      \<or> (188 \<le> code_point c \<and> code_point c \<le> 190)
      \<or> (192 \<le> code_point c \<and> code_point c \<le> 214)
      \<or> (216 \<le> code_point c \<and> code_point c \<le> 246)
      \<or> (248 \<le> code_point c \<and> code_point c \<le> 255))"

text \<open>\<open>s.startswith(sub)\<close>, \<open>s.endswith(sub)\<close> and \<open>sub in s\<close>.\<close>

definition startswith :: "string \<Rightarrow> string \<Rightarrow> bool" where
  "startswith s sub = (take (length sub) s = sub)"

definition endswith :: "string \<Rightarrow> string \<Rightarrow> bool" where
  "endswith s sub = (length sub \<le> length s \<and> drop (length s - length sub) s = sub)"

fun str_contains :: "string \<Rightarrow> string \<Rightarrow> bool" where
  "str_contains sub [] = (sub = [])"
| "str_contains sub (c # cs) = (startswith (c # cs) sub \<or> str_contains sub cs)"

text \<open>\<open>s.rfind(c)\<close> for a single character: the last index of \<open>c\<close>, or \<open>-1\<close>.\<close>

fun rfind_from :: "char \<Rightarrow> string \<Rightarrow> int \<Rightarrow> int \<Rightarrow> int" where
  "rfind_from c [] i found = found"
| "rfind_from c (x # xs) i found = rfind_from c xs (i + 1) (if x = c then i else found)"

definition rfind :: "string \<Rightarrow> char \<Rightarrow> int" where
  "rfind s c = rfind_from c s 0 (- 1)"

text \<open>The slice \<open>s[i:j]\<close> for indices \<open>0 \<le> i\<close>, \<open>0 \<le> j\<close>, and the slice \<open>s[-7:-4]\<close>:
  a negative index counts from the end and is clipped at the start of the string.\<close>

definition slice :: "string \<Rightarrow> nat \<Rightarrow> nat \<Rightarrow> string" where
  "slice s i j = take (j - i) (drop i s)"

definition slice_m7_m4 :: "string \<Rightarrow> string" where
  "slice_m7_m4 s = slice s (length s - 7) (length s - 4)"

text \<open>
  \<open>os.path.splitext\<close> (POSIX): the extension starts at the last dot, when that dot comes
  after the last slash and some character between the slash and the dot is not a dot
  (the loop that skips the leading dots of the file name).
\<close>

definition splitext :: "string \<Rightarrow> string \<times> string" where
  "splitext p =
     (let sepIndex = rfind p CHR ''/'';
          dotIndex = rfind p CHR ''.''
      in if dotIndex > sepIndex
            \<and> list_ex (\<lambda>c. c \<noteq> CHR ''.'') (slice p (nat (sepIndex + 1)) (nat dotIndex))
         then (take (nat dotIndex) p, drop (nat dotIndex) p)
         else (p, []))"

text \<open>\<open>os.path.join(a, b)\<close> (POSIX) for two components.\<close>

definition path_join :: "string \<Rightarrow> string \<Rightarrow> string" where
  "path_join a b =
     (if startswith b ''/'' then b
      else if a = [] \<or> endswith a ''/'' then a @ b
      else a @ ''/'' @ b)"

text \<open>
  \<open>re.search(r'_(B\w{2})_', s)\<close>: the leftmost position where an underscore, the letter B,
  two word characters and an underscore follow one another; the result is group 1, the
  three characters after the first underscore.
\<close>

fun band_id_search :: "string \<Rightarrow> string option" where
  "band_id_search (a # b # c # d # e # rest) =
     (if a = CHR ''_'' \<and> b = CHR ''B'' \<and> is_word_char c \<and> is_word_char d \<and> e = CHR ''_''
      then Some [b, c, d]
      else band_id_search (b # c # d # e # rest))"
| "band_id_search s = None"

section \<open>Data model\<close>

text \<open>The exceptions that leave \<open>create_item\<close> and \<open>image_asset_from_href\<close>.\<close>

datatype key = IntKey int | StrKey string

datatype error =
    MediaTypeError string      \<comment> \<open>\<open>Exception('Must supply a media type for asset : ...')\<close>\<close>
  | UnexpectedAsset string     \<comment> \<open>\<open>ValueError('Unexpected asset: ...')\<close>\<close>
  | MissingEPSG string         \<comment> \<open>\<open>ValueError('Could not determine EPSG code for ...')\<close>\<close>
  | KeyError key               \<comment> \<open>a subscript on a dictionary that lacks the key\<close>
  | AssertionError             \<comment> \<open>the \<open>assert\<close> of \<open>create_item\<close>\<close>
  | InvalidOrbitState string   \<comment> \<open>\<open>ValueError\<close> of the enumeration \<open>OrbitState\<close>\<close>
  | CollaboratorError string   \<comment> \<open>raised inside \<open>extract_gsd\<close> or \<open>transform_from_bbox\<close>\<close>

text \<open>The values of \<open>pystac.MediaType\<close> that the module uses.\<close>

definition JPEG2000 :: string where "JPEG2000 = ''image/jp2''"
definition GEOTIFF :: string where "GEOTIFF = ''image/tiff; application=geotiff''"
definition COG :: string where
  "COG = ''image/tiff; application=geotiff; profile=cloud-optimized''"
definition XML :: string where "XML = ''application/xml''"

text \<open>A band descriptor of the table \<open>SENTINEL_BANDS\<close>; the module reads its description
  and otherwise passes it on whole.\<close>

record band =
  band_name :: string
  common_name :: string
  description :: string

text \<open>
  \<open>pystac.Asset\<close> with the fields the extensions add to it: \<open>eo_bands\<close> is
  \<open>EOExtension.ext(asset).bands\<close>, \<open>gsd\<close> what \<open>common_metadata.set_gsd(gsd, asset)\<close>
  stores, and the three \<open>projection_\<close> fields are those of \<open>ProjectionExtension.ext(asset)\<close>.
  A field that was never set is \<open>None\<close>.
\<close>

record asset =
  href :: string
  media_type :: string
  title :: "string option"
  roles :: "string list"
  eo_bands :: "band list option"
  gsd :: "int option"
  projection_shape :: "int list option"
  projection_bbox :: "real list option"
  projection_transform :: "real list option"

definition Asset :: "string \<Rightarrow> string \<Rightarrow> string option \<Rightarrow> string list \<Rightarrow> asset" where
  "Asset h m t r =
     \<lparr>href = h, media_type = m, title = t, roles = r, eo_bands = None, gsd = None,
      projection_shape = None, projection_bbox = None, projection_transform = None\<rparr>"

text \<open>
  The names that \<open>stac.py\<close> imports from modules outside \<open>src/\<close> are parameters of the
  model: the two helper functions, which may raise, and the constant tables. The
  ground-sample-distance that \<open>extract_gsd\<close> returns is a whole number of metres, so
  that \<open>int(gsd)\<close> is that number; a failure of \<open>int(gsd)\<close> counts as a failure of
  \<open>extract_gsd\<close>.
\<close>

record provider =
  provider_name :: string
  provider_roles :: "string list"
  provider_url :: string

record link =
  rel :: string
  target :: string

record env =
  extract_gsd :: "string \<Rightarrow> error + int"
  transform_from_bbox :: "real list \<Rightarrow> int list \<Rightarrow> error + real list"
  SENTINEL_BANDS :: "string \<rightharpoonup> band"
  SENTINEL_PROVIDER :: provider
  SENTINEL_LICENSE :: link
  SENTINEL_INSTRUMENTS :: "string list"
  SENTINEL_CONSTELLATION :: string
  INSPIRE_METADATA_ASSET_KEY :: string
  DATASTRIP_METADATA_ASSET_KEY :: string

section \<open>The asset classifier\<close>

text \<open>Lines 151 to 161 of \<open>image_asset_from_href\<close>: the media type of the asset.\<close>

definition asset_media_type :: "string \<Rightarrow> string option \<Rightarrow> error + string" where
  "asset_media_type asset_href mt =
     (let ext = snd (splitext asset_href)
      in case mt of
           Some m \<Rightarrow> Inr m
         | None \<Rightarrow>
             if str_lower ext = ''.jp2'' then Inr JPEG2000
             else if str_lower ext \<in> set [''.tiff'', ''.tif''] then Inr GEOTIFF
             else Inl (MediaTypeError asset_href))"

text \<open>The subscripts \<open>SENTINEL_BANDS[k]\<close> of a list display, evaluated left to right.\<close>

fun lookup_bands :: "(string \<rightharpoonup> band) \<Rightarrow> string list \<Rightarrow> error + band list" where
  "lookup_bands T [] = Inr []"
| "lookup_bands T (k # ks) =
     (case T k of
        None \<Rightarrow> Inl (KeyError (StrKey k))
      | Some b \<Rightarrow>
          (case lookup_bands T ks of Inl e \<Rightarrow> Inl e | Inr bs \<Rightarrow> Inr (b # bs)))"

text \<open>The local function \<open>set_asset_properties\<close>, with the variables it closes over as
  arguments. The item is only the receiver of \<open>set_gsd\<close>, which writes to the asset.\<close>

definition set_asset_properties ::
  "int \<Rightarrow> int list \<Rightarrow> real list \<Rightarrow> real list \<Rightarrow> asset \<Rightarrow> asset" where
  "set_asset_properties g shape pbbox transform a =
     a\<lparr>gsd := Some g, projection_shape := Some shape, projection_bbox := Some pbbox,
       projection_transform := Some transform\<rparr>"

text \<open>Lines 203 to 245: the auxiliary images, after the band pattern did not match.\<close>

definition auxiliary_asset ::
  "env \<Rightarrow> string \<Rightarrow> string \<Rightarrow> (asset \<Rightarrow> asset) \<Rightarrow> error + (string \<times> asset)" where
  "auxiliary_asset E asset_href amt setp =
     (if str_contains ''_TCI_'' asset_href then
        (case lookup_bands (SENTINEL_BANDS E) [''B04'', ''B03'', ''B02''] of
           Inl e \<Rightarrow> Inl e
         | Inr bs \<Rightarrow>
             Inr (''visual-'' @ slice_m7_m4 asset_href,
                  setp ((Asset asset_href amt (Some ''True color image'') [''data''])
                          \<lparr>eo_bands := Some bs\<rparr>)))
      else if str_contains ''_AOT_'' asset_href then
        Inr (''AOT-'' @ slice_m7_m4 asset_href,
             setp (Asset asset_href amt (Some ''Aerosol optical thickness (AOT)'') [''data'']))
      else if str_contains ''_WVP_'' asset_href then
        Inr (''WVP-'' @ slice_m7_m4 asset_href,
             setp (Asset asset_href amt (Some ''Water vapour (WVP)'') [''data'']))
      else if str_contains ''_SCL_'' asset_href then
        Inr (''SCL-'' @ slice_m7_m4 asset_href,
             setp (Asset asset_href amt (Some ''Scene classfication map (SCL)'') [''data'']))
      else Inl (UnexpectedAsset asset_href))"

text \<open>
  \<open>image_asset_from_href\<close>. Every statement that can raise is a \<open>case\<close> whose \<open>Inl\<close>
  branch leaves the function, in the order of the source: the media type, the preview,
  then \<open>extract_gsd\<close>, the subscript on \<open>resolution_to_shape\<close> and \<open>transform_from_bbox\<close>
  (all three before any other role is tried), the band pattern, the auxiliary images.
\<close>

definition image_asset_from_href ::
  "env \<Rightarrow> string \<Rightarrow> (int \<rightharpoonup> int \<times> int) \<Rightarrow> real list \<Rightarrow> string option
     \<Rightarrow> error + (string \<times> asset)" where
  "image_asset_from_href E asset_href resolution_to_shape pbbox mt =
     (case asset_media_type asset_href mt of
        Inl e \<Rightarrow> Inl e
      | Inr amt \<Rightarrow>
          if str_contains ''_PVI'' asset_href then
            (case lookup_bands (SENTINEL_BANDS E) [''B04'', ''B03'', ''B02''] of
               Inl e \<Rightarrow> Inl e
             | Inr bs \<Rightarrow>
                 Inr (''preview'',
                      (Asset asset_href amt (Some ''True color preview'') [''data''])
                        \<lparr>eo_bands := Some bs\<rparr>))
          else
            (case extract_gsd E asset_href of
               Inl e \<Rightarrow> Inl e
             | Inr g \<Rightarrow>
                 (case resolution_to_shape g of
                    None \<Rightarrow> Inl (KeyError (IntKey g))
                  | Some (rows, cols) \<Rightarrow>
                      (case transform_from_bbox E pbbox [rows, cols] of
                         Inl e \<Rightarrow> Inl e
                       | Inr transform \<Rightarrow>
                           (case band_id_search asset_href of
                              Some band_id \<Rightarrow>
                                (case SENTINEL_BANDS E band_id of
                                   None \<Rightarrow> Inl (KeyError (StrKey band_id))
                                 | Some b \<Rightarrow>
                                     Inr (band_id,
                                          set_asset_properties g [rows, cols] pbbox transform
                                            ((Asset asset_href amt (Some (description b)) [''data''])
                                               \<lparr>eo_bands := Some [b]\<rparr>)))
                            | None \<Rightarrow>
                                auxiliary_asset E asset_href amt
                                  (set_asset_properties g [rows, cols] pbbox transform))))))"

section \<open>The item assembler\<close>

text \<open>
  The three metadata readers are constructed at the top of \<open>create_item\<close> from classes
  outside \<open>src/\<close>; the model takes what they expose as records. \<open>create_asset()\<close> is
  the pair it returns. The types of the geometry and of the timestamp are left open. A
  value of a property dictionary is a string, a number, a list of strings or the list of
  providers.
\<close>

datatype pvalue =
    PStr string
  | PInt int
  | PFloat real
  | PStrList "string list"
  | PProviders "provider list"

record safe_manifest =
  product_metadata_href :: string
  granule_metadata_href :: string
  inspire_metadata_href :: string
  datastrip_metadata_href :: string
  thumbnail_href :: "string option"
  manifest_create_asset :: "string \<times> asset"

record ('g, 'd) product_metadata =
  product_id :: string
  product_geometry :: 'g
  product_bbox :: "real list"
  product_datetime :: 'd
  product_platform :: string
  orbit_state :: string
  relative_orbit :: int
  image_media_type :: "string option"
  image_paths :: "string list"
  product_metadata_dict :: "string \<rightharpoonup> pvalue"
  product_create_asset :: "string \<times> asset"

record granule_metadata =
  cloudiness_percentage :: real
  epsg :: "int option"
  resolution_to_shape :: "int \<rightharpoonup> int \<times> int"
  proj_bbox :: "real list"
  granule_metadata_dict :: "string \<rightharpoonup> pvalue"
  granule_create_asset :: "string \<times> asset"

text \<open>The enumeration \<open>pystac.extensions.sat.OrbitState\<close>; calling it on a string that
  is none of its values raises \<open>ValueError\<close>. \<open>OrbitState_value\<close> is the attribute
  \<open>value\<close> of a member.\<close>

datatype OrbitState = ASCENDING | DESCENDING | GEOSTATIONARY

definition OrbitState :: "string \<Rightarrow> error + OrbitState" where
  "OrbitState s =
     (if s = ''ascending'' then Inr ASCENDING
      else if s = ''descending'' then Inr DESCENDING
      else if s = ''geostationary'' then Inr GEOSTATIONARY
      else Inl (InvalidOrbitState s))"

fun OrbitState_value :: "OrbitState \<Rightarrow> string" where
  "OrbitState_value ASCENDING = ''ascending''"
| "OrbitState_value DESCENDING = ''descending''"
| "OrbitState_value GEOSTATIONARY = ''geostationary''"

text \<open>
  \<open>pystac.Item\<close>. \<open>properties\<close> is the dictionary the item was constructed with; the
  common metadata and the fields of the three extensions are views of it: a setter
  writes its value into \<open>properties\<close> under the name of the field, or removes the entry
  when the value is \<open>None\<close>, and a getter reads the entry. \<open>assets\<close> is a dictionary in
  insertion order, an association list with distinct keys.
\<close>

record ('g, 'd) item =
  item_id :: string
  geometry :: 'g
  bbox :: "real list"
  datetime :: 'd
  properties :: "string \<rightharpoonup> pvalue"
  assets :: "(string \<times> asset) list"
  links :: "link list"

definition set_property :: "string \<Rightarrow> pvalue option \<Rightarrow> ('g, 'd) item \<Rightarrow> ('g, 'd) item" where
  "set_property name v it = it\<lparr>properties := (properties it)(name := v)\<rparr>"

text \<open>\<open>Item.add_asset(key, asset)\<close> is \<open>self.assets[key] = asset\<close>: a key that is
  present gets the new asset, with no error.\<close>

definition add_asset :: "string \<times> asset \<Rightarrow> ('g, 'd) item \<Rightarrow> ('g, 'd) item" where
  "add_asset ka it = it\<lparr>assets := AList.update (fst ka) (snd ka) (assets it)\<rparr>"

text \<open>\<open>dict(pairs)\<close>: the pairs are inserted from left to right, a later pair replacing
  the value of an earlier one with the same key.\<close>

definition dict :: "(string \<times> 'a) list \<Rightarrow> (string \<times> 'a) list" where
  "dict pairs = fold (\<lambda>kv d. AList.update (fst kv) (snd kv) d) pairs []"

text \<open>The list comprehension of lines 116 to 121: the classifier on every image path,
  in order; the first exception ends it.\<close>

fun image_assets_list ::
  "env \<Rightarrow> string \<Rightarrow> (int \<rightharpoonup> int \<times> int) \<Rightarrow> real list \<Rightarrow> string option \<Rightarrow> string list
     \<Rightarrow> error + (string \<times> asset) list" where
  "image_assets_list E granule_href r2s pbbox mt [] = Inr []"
| "image_assets_list E granule_href r2s pbbox mt (image_path # ps) =
     (case image_asset_from_href E (path_join granule_href image_path) r2s pbbox mt of
        Inl e \<Rightarrow> Inl e
      | Inr ka \<Rightarrow>
          (case image_assets_list E granule_href r2s pbbox mt ps of
             Inl e \<Rightarrow> Inl e
           | Inr kas \<Rightarrow> Inr (ka # kas)))"

text \<open>The loop of lines 123 to 125 over the items of the dictionary.\<close>

fun add_image_assets ::
  "(string \<times> asset) list \<Rightarrow> ('g, 'd) item \<Rightarrow> error + ('g, 'd) item" where
  "add_image_assets [] it = Inr it"
| "add_image_assets (ka # kas) it =
     (if fst ka \<in> fst ` set (assets it) then Inl AssertionError
      else add_image_assets kas (add_asset ka it))"

text \<open>
  \<open>create_item\<close>, from the constructed readers on. The statements are in the order of
  the source. Lines 60 to 83 write the providers, the platform, the constellation, the
  instruments, the cloud cover, the orbit state, the relative orbit and the EPSG code
  into \<open>properties\<close>; \<open>update\<close> on line 90 then writes the two metadata dictionaries
  over them. The getter \<open>common_metadata.providers\<close> builds a new list from the entry, so
  the \<open>extend\<close> of line 63 changes that list and not the item: the additional providers
  do not reach the record. The two statements that can raise before the assets are the
  call of \<open>OrbitState\<close> (line 78) and the test of the EPSG code (line 84), which reads
  the entry that line 83 wrote.
\<close>

definition create_item ::
  "env \<Rightarrow> string \<Rightarrow> provider list option \<Rightarrow> safe_manifest
     \<Rightarrow> ('g, 'd) product_metadata \<Rightarrow> granule_metadata \<Rightarrow> error + ('g, 'd) item" where
  "create_item E granule_href additional_providers sm pm gm =
     (let item0 =
            \<lparr>item_id = product_id pm, geometry = product_geometry pm, bbox = product_bbox pm,
             datetime = product_datetime pm, properties = Map.empty,
             assets = [], links = []\<rparr>;
          item_common =
            set_property ''instruments'' (Some (PStrList (SENTINEL_INSTRUMENTS E)))
              (set_property ''constellation'' (Some (PStr (SENTINEL_CONSTELLATION E)))
                 (set_property ''platform'' (Some (PStr (product_platform pm)))
                    (set_property ''providers'' (Some (PProviders [SENTINEL_PROVIDER E]))
                       item0)));
          item_eo =
            set_property ''eo:cloud_cover'' (Some (PFloat (cloudiness_percentage gm)))
              item_common
      in case OrbitState (str_lower (orbit_state pm)) of
           Inl e \<Rightarrow> Inl e
         | Inr os \<Rightarrow>
             (let item_sat =
                    set_property ''sat:relative_orbit'' (Some (PInt (relative_orbit pm)))
                      (set_property ''sat:orbit_state'' (Some (PStr (OrbitState_value os)))
                         item_eo);
                  item1 = set_property ''proj:epsg'' (map_option PInt (epsg gm)) item_sat
              in case properties item1 ''proj:epsg'' of
                   None \<Rightarrow> Inl (MissingEPSG granule_href)
                 | Some code \<Rightarrow>
                     (let item2 = item1\<lparr>properties :=
                                    properties item1
                                      ++ (product_metadata_dict pm ++ granule_metadata_dict gm)\<rparr>;
                          item3 =
                            add_asset (DATASTRIP_METADATA_ASSET_KEY E,
                                       Asset (datastrip_metadata_href sm) XML None [''metadata''])
                              (add_asset (INSPIRE_METADATA_ASSET_KEY E,
                                          Asset (inspire_metadata_href sm) XML None [''metadata''])
                                 (add_asset (granule_create_asset gm)
                                    (add_asset (product_create_asset pm)
                                       (add_asset (manifest_create_asset sm) item2))))
                      in case image_assets_list E granule_href (resolution_to_shape gm)
                                (proj_bbox gm) (image_media_type pm) (image_paths pm) of
                           Inl e \<Rightarrow> Inl e
                         | Inr pairs \<Rightarrow>
                             (case add_image_assets (dict pairs) item3 of
                                Inl e \<Rightarrow> Inl e
                              | Inr item4 \<Rightarrow>
                                  (let item5 =
                                         (case thumbnail_href sm of
                                            None \<Rightarrow> item4
                                          | Some t \<Rightarrow>
                                              add_asset
                                                (''preview'', Asset t COG None [''thumbnail''])
                                                item4)
                                   in Inr (item5\<lparr>links :=
                                             links item5 @ [SENTINEL_LICENSE E]\<rparr>))))))"

section \<open>Sample collaborators\<close>

text \<open>
  Modelled from the spec: \<open>extract_gsd\<close> of \<open>stactools.sentinel2.utils\<close>, which is not
  under \<open>src/\<close>. The spec says it extracts "the ground-sample-distance encoded in the
  filename (integer meters)", and that the file names end in a suffix of fixed length
  whose resolution tier ("10m", "20m", "60m") is the slice \<open>href[-7:-4]\<close>. The sample
  reads the two digits of that tier at their fixed place, the slice \<open>href[-7:-5]\<close>,
  and fails when the two characters there are not both digits.
\<close>

definition is_digit :: "char \<Rightarrow> bool" where
  "is_digit c = (48 \<le> code_point c \<and> code_point c \<le> 57)"

definition digit_value :: "char \<Rightarrow> int" where
  "digit_value c = int (code_point c) - 48"

definition sample_extract_gsd :: "string \<Rightarrow> error + int" where
  "sample_extract_gsd image_path =
     (case slice image_path (length image_path - 7) (length image_path - 5) of
        [d1, d2] \<Rightarrow>
          if is_digit d1 \<and> is_digit d2
          then Inr (10 * digit_value d1 + digit_value d2)
          else Inl (CollaboratorError image_path)
      | _ \<Rightarrow> Inl (CollaboratorError image_path))"

text \<open>
  Modelled from the spec: \<open>transform_from_bbox\<close> of \<open>stactools.core.projection\<close>, which
  is not under \<open>src/\<close>. The spec says it computes "a geotransform (affine mapping from
  pixel space to projected coordinates) from the supplied projected bounding box and the
  looked-up shape": the six coefficients that send pixel (column, row) to the corner
  (xmin, ymax) plus the pixel sizes, over the reals.
\<close>

definition sample_transform_from_bbox :: "real list \<Rightarrow> int list \<Rightarrow> error + real list" where
  "sample_transform_from_bbox b shape =
     (case (b, shape) of
        ([xmin, ymin, xmax, ymax], [rows, cols]) \<Rightarrow>
          if rows = 0 \<or> cols = 0 then Inl (CollaboratorError ''transform_from_bbox'')
          else Inr [(xmax - xmin) / real_of_int cols, 0, xmin,
                    0, (ymin - ymax) / real_of_int rows, ymax]
      | _ \<Rightarrow> Inl (CollaboratorError ''transform_from_bbox''))"

text \<open>
  Modelled from the spec: the constants of \<open>stactools.sentinel2.constants\<close>, which is not
  under \<open>src/\<close>. The band table is "keyed by band code (e.g. "B04")"; the three bands of
  the true-color images are red, green and blue.
\<close>

definition sample_bands :: "string \<rightharpoonup> band" where
  "sample_bands =
     [''B02'' \<mapsto> \<lparr>band_name = ''B02'', common_name = ''blue'', description = ''Band 2 - Blue''\<rparr>,
      ''B03'' \<mapsto> \<lparr>band_name = ''B03'', common_name = ''green'', description = ''Band 3 - Green''\<rparr>,
      ''B04'' \<mapsto> \<lparr>band_name = ''B04'', common_name = ''red'', description = ''Band 4 - Red''\<rparr>]"

definition sample_env :: env where
  "sample_env =
     \<lparr>extract_gsd = sample_extract_gsd,
      transform_from_bbox = sample_transform_from_bbox,
      SENTINEL_BANDS = sample_bands,
      SENTINEL_PROVIDER =
        \<lparr>provider_name = ''ESA'', provider_roles = [''producer'', ''processor'', ''licensor''],
         provider_url = ''https://earth.esa.int/web/guest/home''\<rparr>,
      SENTINEL_LICENSE = \<lparr>rel = ''license'', target = ''https://sentinel.esa.int/''\<rparr>,
      SENTINEL_INSTRUMENTS = [''msi''],
      SENTINEL_CONSTELLATION = ''Sentinel 2'',
      INSPIRE_METADATA_ASSET_KEY = ''inspire-metadata'',
      DATASTRIP_METADATA_ASSET_KEY = ''datastrip-metadata''\<rparr>"

text \<open>
  Sample results of the three metadata readers, for one granule with two metadata
  dictionaries that share the key \<open>s2:generation_time\<close>. The geometry is a list of
  points and the timestamp a string.
\<close>

definition sample_manifest :: safe_manifest where
  "sample_manifest =
     \<lparr>product_metadata_href = ''g.SAFE/MTD_MSIL2A.xml'',
      granule_metadata_href = ''g.SAFE/GRANULE/L2A_T01CCV/MTD_TL.xml'',
      inspire_metadata_href = ''g.SAFE/INSPIRE.xml'',
      datastrip_metadata_href = ''g.SAFE/DATASTRIP/DS/MTD_DS.xml'',
      thumbnail_href = None,
      manifest_create_asset =
        (''safe-manifest'', Asset ''g.SAFE/manifest.safe'' XML None [''metadata''])\<rparr>"

definition sample_product :: "((real \<times> real) list, string) product_metadata" where
  "sample_product =
     \<lparr>product_id = ''S2A_MSIL2A_20160327T204522_N0212_R128_T01CCV_20210214T042702'',
      product_geometry = [(179, - 73), (180, - 73), (180, - 72), (179, - 72), (179, - 73)],
      product_bbox = [179, - 73, 180, - 72],
      product_datetime = ''2016-03-27T20:45:22Z'',
      product_platform = ''sentinel-2a'',
      orbit_state = ''DESCENDING'',
      relative_orbit = 128,
      image_media_type = None,
      image_paths = [''GRANULE/L2A_T01CCV/IMG_DATA/R10m/T01CCV_20160327T204522_B04_10m.jp2''],
      product_metadata_dict =
        [''s2:product_type'' \<mapsto> PStr ''S2MSI2A'', ''s2:generation_time'' \<mapsto> PStr ''product''],
      product_create_asset =
        (''product-metadata'', Asset ''g.SAFE/MTD_MSIL2A.xml'' XML None [''metadata''])\<rparr>"

definition sample_granule :: granule_metadata where
  "sample_granule =
     \<lparr>cloudiness_percentage = 12,
      epsg = Some 32701,
      resolution_to_shape =
        [10 \<mapsto> (10980, 10980), 20 \<mapsto> (5490, 5490), 60 \<mapsto> (1830, 1830)],
      proj_bbox = [499980, 6090220, 609780, 6200020],
      granule_metadata_dict =
        [''s2:mgrs_tile'' \<mapsto> PStr ''01CCV'', ''s2:generation_time'' \<mapsto> PStr ''granule''],
      granule_create_asset =
        (''granule-metadata'',
         Asset ''g.SAFE/GRANULE/L2A_T01CCV/MTD_TL.xml'' XML None [''metadata''])\<rparr>"

section \<open>Evaluation rules and helper lemmas\<close>

lemmas classifier_defs = image_asset_from_href_def asset_media_type_def auxiliary_asset_def
  set_asset_properties_def Asset_def

lemmas string_defs = splitext_def rfind_def slice_def slice_m7_m4_def startswith_def
  endswith_def path_join_def is_word_char_def is_digit_def digit_value_def code_point_def
  str_lower_def lower_char_def

lemmas sample_defs = sample_env_def sample_extract_gsd_def sample_transform_from_bbox_def
  sample_bands_def JPEG2000_def GEOTIFF_def COG_def XML_def

lemmas path_defs = splitext_def rfind_def slice_def slice_m7_m4_def startswith_def
  endswith_def path_join_def is_word_char_def is_digit_def digit_value_def code_point_def

lemma splitext_append: "splitext p = (r, e) \<Longrightarrow> p = r @ e"
  by (auto simp: splitext_def Let_def split: if_splits)

lemma slice_m7_m4_ext4: "length e = 4 \<Longrightarrow> slice_m7_m4 (r @ e) = drop (length r - 3) r"
  by (simp add: slice_m7_m4_def slice_def)

lemma str_lower_jp2: "str_lower ''.jp2'' = ''.jp2''"
  by code_simp






lemma asset_media_type_result:
  assumes "image_asset_from_href E h r2s b mt = Inr (k, a)"
  shows "asset_media_type h mt = Inr (media_type a)"
  using assms
  by (auto simp: classifier_defs split: sum.splits if_splits option.splits prod.splits)

section \<open>The classifier: media type\<close>





section \<open>The classifier: roles\<close>

text \<open>
  C8. The image path \<open>.../T01CCV_20210214T042702_B04_10m.jp2\<close> with the resolution table
  \<open>{10: (10980, 10980)}\<close>, the projected bounding box
  \<open>[499980, 6090220, 609780, 6200020]\<close> and no media type: when \<open>extract_gsd\<close> reads 10
  from the path, the band table has \<open>B04\<close> and \<open>transform_from_bbox\<close> returns a
  transform for that box and the shape \<open>[10980, 10980]\<close>, the classifier returns the
  key \<open>B04\<close> and an asset with media type JPEG2000, the single band \<open>B04\<close>, that shape,
  that box, that transform and the ground-sample-distance 10.
\<close>

theorem scenario_band_B04:
  assumes "extract_gsd E ''.../T01CCV_20210214T042702_B04_10m.jp2'' = Inr 10"
    and "SENTINEL_BANDS E ''B04'' = Some b4"
    and "transform_from_bbox E [499980, 6090220, 609780, 6200020] [10980, 10980] = Inr t"
  shows "image_asset_from_href E ''.../T01CCV_20210214T042702_B04_10m.jp2''
           [10 \<mapsto> (10980, 10980)] [499980, 6090220, 609780, 6200020] None
         = Inr (''B04'',
             \<lparr>href = ''.../T01CCV_20210214T042702_B04_10m.jp2'', media_type = JPEG2000,
              title = Some (description b4), roles = [''data''], eo_bands = Some [b4],
              gsd = Some 10, projection_shape = Some [10980, 10980],
              projection_bbox = Some [499980, 6090220, 609780, 6200020],
              projection_transform = Some t\<rparr>)"
  using assms by (simp add: classifier_defs string_defs)

theorem scenario_band_B04_witness:
  "extract_gsd sample_env ''.../T01CCV_20210214T042702_B04_10m.jp2'' = Inr 10
   \<and> SENTINEL_BANDS sample_env ''B04''
       = Some \<lparr>band_name = ''B04'', common_name = ''red'', description = ''Band 4 - Red''\<rparr>
   \<and> transform_from_bbox sample_env [499980, 6090220, 609780, 6200020] [10980, 10980]
       = Inr [10, 0, 499980, 0, - 10, 6200020]
   \<and> image_asset_from_href sample_env ''.../T01CCV_20210214T042702_B04_10m.jp2''
           [10 \<mapsto> (10980, 10980)] [499980, 6090220, 609780, 6200020] None
       = Inr (''B04'',
             \<lparr>href = ''.../T01CCV_20210214T042702_B04_10m.jp2'', media_type = JPEG2000,
              title = Some ''Band 4 - Red'', roles = [''data''],
              eo_bands = Some [\<lparr>band_name = ''B04'', common_name = ''red'',
                                 description = ''Band 4 - Red''\<rparr>],
              gsd = Some 10, projection_shape = Some [10980, 10980],
              projection_bbox = Some [499980, 6090220, 609780, 6200020],
              projection_transform = Some [10, 0, 499980, 0, - 10, 6200020]\<rparr>)"
proof -
  have h1: "extract_gsd sample_env ''.../T01CCV_20210214T042702_B04_10m.jp2'' = Inr 10"
    by (simp add: sample_env_def sample_extract_gsd_def string_defs)
  have h2: "SENTINEL_BANDS sample_env ''B04''
       = Some \<lparr>band_name = ''B04'', common_name = ''red'', description = ''Band 4 - Red''\<rparr>"
    by (simp add: sample_env_def sample_bands_def)
  have h3: "transform_from_bbox sample_env [499980, 6090220, 609780, 6200020] [10980, 10980]
       = Inr [10, 0, 499980, 0, - 10, 6200020]"
    by (simp add: sample_env_def sample_transform_from_bbox_def)
  from scenario_band_B04 [OF h1 h2 h3] h1 h2 h3 show ?thesis
    by simp
qed

text \<open>
  C4, as stated, fails: an href that contains \<open>_PVI\<close> but has an extension from which no
  media type can be inferred, with none supplied, is not classified as the preview; the
  classifier raises the media-type error before it looks for any marker.
\<close>

theorem preview_without_media_type_counterexample:
  "str_contains ''_PVI'' ''.../T01CCV_PVI.png''
   \<and> image_asset_from_href sample_env ''.../T01CCV_PVI.png'' [10 \<mapsto> (10980, 10980)]
        [499980, 6090220, 609780, 6200020] None
      = Inl (MediaTypeError ''.../T01CCV_PVI.png'')"
  by (simp add: classifier_defs string_defs)

text \<open>
  C4, amended. For every href that contains \<open>_PVI\<close> and whose media type is determined
  (supplied, or inferred from the extension), also one in which the band pattern
  matches, and with \<open>B04\<close>, \<open>B03\<close> and \<open>B02\<close> in the band table: the classifier returns the
  key \<open>preview\<close> and an asset with the bands \<open>[B04, B03, B02]\<close> and no
  ground-sample-distance, shape, projected bounding box or transform. Neither
  \<open>extract_gsd\<close> nor the resolution table nor \<open>transform_from_bbox\<close> is consulted.
\<close>

theorem preview_has_priority:
  assumes "str_contains ''_PVI'' h"
    and "asset_media_type h mt = Inr m"
    and "SENTINEL_BANDS E ''B04'' = Some b4"
    and "SENTINEL_BANDS E ''B03'' = Some b3"
    and "SENTINEL_BANDS E ''B02'' = Some b2"
  shows "image_asset_from_href E h r2s b mt
         = Inr (''preview'',
             \<lparr>href = h, media_type = m, title = Some ''True color preview'',
              roles = [''data''], eo_bands = Some [b4, b3, b2], gsd = None,
              projection_shape = None, projection_bbox = None,
              projection_transform = None\<rparr>)"
  using assms by (simp add: image_asset_from_href_def Asset_def)

theorem preview_has_priority_witness:
  "str_contains ''_PVI'' ''.../T01CCV_PVI_B04_10m.jp2''
   \<and> band_id_search ''.../T01CCV_PVI_B04_10m.jp2'' = Some ''B04''
   \<and> asset_media_type ''.../T01CCV_PVI_B04_10m.jp2'' None = Inr JPEG2000
   \<and> SENTINEL_BANDS sample_env ''B04''
       = Some \<lparr>band_name = ''B04'', common_name = ''red'', description = ''Band 4 - Red''\<rparr>
   \<and> SENTINEL_BANDS sample_env ''B03''
       = Some \<lparr>band_name = ''B03'', common_name = ''green'', description = ''Band 3 - Green''\<rparr>
   \<and> SENTINEL_BANDS sample_env ''B02''
       = Some \<lparr>band_name = ''B02'', common_name = ''blue'', description = ''Band 2 - Blue''\<rparr>
   \<and> image_asset_from_href sample_env ''.../T01CCV_PVI_B04_10m.jp2'' Map.empty [] None
       = Inr (''preview'',
             \<lparr>href = ''.../T01CCV_PVI_B04_10m.jp2'', media_type = JPEG2000,
              title = Some ''True color preview'', roles = [''data''],
              eo_bands = Some
                [\<lparr>band_name = ''B04'', common_name = ''red'', description = ''Band 4 - Red''\<rparr>,
                 \<lparr>band_name = ''B03'', common_name = ''green'', description = ''Band 3 - Green''\<rparr>,
                 \<lparr>band_name = ''B02'', common_name = ''blue'', description = ''Band 2 - Blue''\<rparr>],
              gsd = None, projection_shape = None, projection_bbox = None,
              projection_transform = None\<rparr>)"
proof -
  have h1: "str_contains ''_PVI'' ''.../T01CCV_PVI_B04_10m.jp2''"
    by (simp add: string_defs)
  have h2: "asset_media_type ''.../T01CCV_PVI_B04_10m.jp2'' None = Inr JPEG2000"
    by (simp add: asset_media_type_def string_defs)
  have h3: "SENTINEL_BANDS sample_env ''B04''
       = Some \<lparr>band_name = ''B04'', common_name = ''red'', description = ''Band 4 - Red''\<rparr>"
    by (simp add: sample_env_def sample_bands_def)
  have h4: "SENTINEL_BANDS sample_env ''B03''
       = Some \<lparr>band_name = ''B03'', common_name = ''green'', description = ''Band 3 - Green''\<rparr>"
    by (simp add: sample_env_def sample_bands_def)
  have h5: "SENTINEL_BANDS sample_env ''B02''
       = Some \<lparr>band_name = ''B02'', common_name = ''blue'', description = ''Band 2 - Blue''\<rparr>"
    by (simp add: sample_env_def sample_bands_def)
  have h6: "band_id_search ''.../T01CCV_PVI_B04_10m.jp2'' = Some ''B04''"
    by (simp add: string_defs)
  from preview_has_priority [OF h1 h2 h3 h4 h5, of Map.empty "[]"] h1 h2 h3 h4 h5 h6
  show ?thesis by simp
qed

text \<open>
  C2, as stated, fails: the path \<open>.../T01CCV_XYZ_10m.jp2\<close> holds no marker and its media
  type is inferred, yet with a resolution table that lacks the resolution 10 the
  classifier raises the lookup error of the table, not the unclassified-asset error. The
  ground-sample-distance, the shape and the transform are computed before the band
  pattern and the auxiliary markers are tried.
\<close>

theorem unmarked_href_counterexample:
  "asset_media_type ''.../T01CCV_XYZ_10m.jp2'' None = Inr JPEG2000
   \<and> str_contains ''_PVI'' ''.../T01CCV_XYZ_10m.jp2'' = False
   \<and> band_id_search ''.../T01CCV_XYZ_10m.jp2'' = None
   \<and> str_contains ''_TCI_'' ''.../T01CCV_XYZ_10m.jp2'' = False
   \<and> str_contains ''_AOT_'' ''.../T01CCV_XYZ_10m.jp2'' = False
   \<and> str_contains ''_WVP_'' ''.../T01CCV_XYZ_10m.jp2'' = False
   \<and> str_contains ''_SCL_'' ''.../T01CCV_XYZ_10m.jp2'' = False
   \<and> image_asset_from_href sample_env ''.../T01CCV_XYZ_10m.jp2'' Map.empty
        [499980, 6090220, 609780, 6200020] None
      = Inl (KeyError (IntKey 10))"
  by (simp add: classifier_defs string_defs sample_defs)

text \<open>
  C2, amended. For every href whose media type is determined, that contains none of the
  markers \<open>_PVI\<close>, the band pattern, \<open>_TCI_\<close>, \<open>_AOT_\<close>, \<open>_WVP_\<close>, \<open>_SCL_\<close>, and for which
  \<open>extract_gsd\<close> returns a resolution that the table holds and \<open>transform_from_bbox\<close>
  returns a transform, the classifier fails with the unclassified-asset error that
  carries the href. The path \<open>.../T01CCV_XYZ_10m.jp2\<close> with the table
  \<open>{10: (10980, 10980)}\<close> is such an href.
\<close>

theorem unmarked_href_is_unexpected:
  assumes "asset_media_type h mt = Inr m"
    and "\<not> str_contains ''_PVI'' h"
    and "band_id_search h = None"
    and "\<not> str_contains ''_TCI_'' h"
    and "\<not> str_contains ''_AOT_'' h"
    and "\<not> str_contains ''_WVP_'' h"
    and "\<not> str_contains ''_SCL_'' h"
    and "extract_gsd E h = Inr g"
    and "r2s g = Some (rows, cols)"
    and "transform_from_bbox E b [rows, cols] = Inr t"
  shows "image_asset_from_href E h r2s b mt = Inl (UnexpectedAsset h)"
  using assms by (simp add: image_asset_from_href_def auxiliary_asset_def)

theorem unmarked_href_is_unexpected_witness:
  "asset_media_type ''.../T01CCV_XYZ_10m.jp2'' None = Inr JPEG2000
   \<and> \<not> str_contains ''_PVI'' ''.../T01CCV_XYZ_10m.jp2''
   \<and> band_id_search ''.../T01CCV_XYZ_10m.jp2'' = None
   \<and> \<not> str_contains ''_TCI_'' ''.../T01CCV_XYZ_10m.jp2''
   \<and> \<not> str_contains ''_AOT_'' ''.../T01CCV_XYZ_10m.jp2''
   \<and> \<not> str_contains ''_WVP_'' ''.../T01CCV_XYZ_10m.jp2''
   \<and> \<not> str_contains ''_SCL_'' ''.../T01CCV_XYZ_10m.jp2''
   \<and> extract_gsd sample_env ''.../T01CCV_XYZ_10m.jp2'' = Inr 10
   \<and> [10 \<mapsto> (10980, 10980)] (10 :: int) = Some (10980 :: int, 10980 :: int)
   \<and> transform_from_bbox sample_env [499980, 6090220, 609780, 6200020] [10980, 10980]
       = Inr [10, 0, 499980, 0, - 10, 6200020]
   \<and> image_asset_from_href sample_env ''.../T01CCV_XYZ_10m.jp2'' [10 \<mapsto> (10980, 10980)]
        [499980, 6090220, 609780, 6200020] None
      = Inl (UnexpectedAsset ''.../T01CCV_XYZ_10m.jp2'')"
proof -
  have h1: "asset_media_type ''.../T01CCV_XYZ_10m.jp2'' None = Inr JPEG2000"
    by (simp add: asset_media_type_def string_defs)
  have h2: "\<not> str_contains ''_PVI'' ''.../T01CCV_XYZ_10m.jp2''"
    by (simp add: string_defs)
  have h3: "band_id_search ''.../T01CCV_XYZ_10m.jp2'' = None"
    by (simp add: string_defs)
  have h4: "\<not> str_contains ''_TCI_'' ''.../T01CCV_XYZ_10m.jp2''"
    by (simp add: string_defs)
  have h5: "\<not> str_contains ''_AOT_'' ''.../T01CCV_XYZ_10m.jp2''"
    by (simp add: string_defs)
  have h6: "\<not> str_contains ''_WVP_'' ''.../T01CCV_XYZ_10m.jp2''"
    by (simp add: string_defs)
  have h7: "\<not> str_contains ''_SCL_'' ''.../T01CCV_XYZ_10m.jp2''"
    by (simp add: string_defs)
  have h8: "extract_gsd sample_env ''.../T01CCV_XYZ_10m.jp2'' = Inr 10"
    by (simp add: sample_env_def sample_extract_gsd_def string_defs)
  have h9: "[10 \<mapsto> (10980, 10980)] (10 :: int) = Some (10980 :: int, 10980 :: int)"
    by simp
  have h10: "transform_from_bbox sample_env [499980, 6090220, 609780, 6200020] [10980, 10980]
       = Inr [10, 0, 499980, 0, - 10, 6200020]"
    by (simp add: sample_env_def sample_transform_from_bbox_def)
  note r = unmarked_href_is_unexpected
      [where ?r2s = "[10 \<mapsto> (10980, 10980)]" and ?g = 10,
       OF h1 h2 h3 h4 h5 h6 h7 h8 h9 h10]
  show ?thesis
    using h1 h2 h3 h4 h5 h6 h7 h8 h9 h10 r by (intro conjI)
qed

text \<open>
  C10, as stated, fails: an href in which the band pattern matches a code that the band
  table lacks, and which also contains \<open>_PVI\<close>, is classified as the preview; the
  classifier returns an asset and raises nothing.
\<close>

theorem unknown_band_counterexample:
  "band_id_search ''.../T01CCV_PVI_BXX_10m.jp2'' = Some ''BXX''
   \<and> SENTINEL_BANDS sample_env ''BXX'' = None
   \<and> image_asset_from_href sample_env ''.../T01CCV_PVI_BXX_10m.jp2''
        [10 \<mapsto> (10980, 10980)] [499980, 6090220, 609780, 6200020] None
      = Inr (''preview'',
             \<lparr>href = ''.../T01CCV_PVI_BXX_10m.jp2'', media_type = JPEG2000,
              title = Some ''True color preview'', roles = [''data''],
              eo_bands = Some
                [\<lparr>band_name = ''B04'', common_name = ''red'', description = ''Band 4 - Red''\<rparr>,
                 \<lparr>band_name = ''B03'', common_name = ''green'', description = ''Band 3 - Green''\<rparr>,
                 \<lparr>band_name = ''B02'', common_name = ''blue'', description = ''Band 2 - Blue''\<rparr>],
              gsd = None, projection_shape = None, projection_bbox = None,
              projection_transform = None\<rparr>)"
  by (simp add: classifier_defs string_defs sample_defs)

text \<open>
  C10, amended. For every href that does not contain \<open>_PVI\<close>, whose media type is
  determined and from which \<open>extract_gsd\<close> reads a resolution, and in which the band
  pattern matches a code that is not a key of the band table: the classifier fails with
  a lookup error. It is the lookup error of the resolution when the resolution table
  lacks it, and the lookup error of the band code when the table holds the resolution
  and \<open>transform_from_bbox\<close> returns a transform. No asset is returned and the
  unclassified-asset error is not raised.
\<close>

theorem unknown_band_is_key_error:
  assumes "\<not> str_contains ''_PVI'' h"
    and "asset_media_type h mt = Inr m"
    and "extract_gsd E h = Inr g"
    and "band_id_search h = Some code"
    and "SENTINEL_BANDS E code = None"
  shows "(r2s g = None \<longrightarrow> image_asset_from_href E h r2s b mt = Inl (KeyError (IntKey g)))
       \<and> (r2s' g = Some (rows, cols) \<and> transform_from_bbox E b [rows, cols] = Inr t \<longrightarrow>
            image_asset_from_href E h r2s' b mt = Inl (KeyError (StrKey code)))"
  using assms by (simp add: image_asset_from_href_def)

theorem unknown_band_is_key_error_witness:
  "\<not> str_contains ''_PVI'' ''.../T01CCV_BXX_10m.jp2''
   \<and> asset_media_type ''.../T01CCV_BXX_10m.jp2'' None = Inr JPEG2000
   \<and> extract_gsd sample_env ''.../T01CCV_BXX_10m.jp2'' = Inr 10
   \<and> band_id_search ''.../T01CCV_BXX_10m.jp2'' = Some ''BXX''
   \<and> SENTINEL_BANDS sample_env ''BXX'' = None
   \<and> (Map.empty :: int \<rightharpoonup> int \<times> int) 10 = None
   \<and> image_asset_from_href sample_env ''.../T01CCV_BXX_10m.jp2'' Map.empty
        [499980, 6090220, 609780, 6200020] None = Inl (KeyError (IntKey 10))
   \<and> [10 \<mapsto> (10980, 10980)] (10 :: int) = Some (10980 :: int, 10980 :: int)
   \<and> transform_from_bbox sample_env [499980, 6090220, 609780, 6200020] [10980, 10980]
       = Inr [10, 0, 499980, 0, - 10, 6200020]
   \<and> image_asset_from_href sample_env ''.../T01CCV_BXX_10m.jp2'' [10 \<mapsto> (10980, 10980)]
        [499980, 6090220, 609780, 6200020] None = Inl (KeyError (StrKey ''BXX''))"
proof -
  have h1: "\<not> str_contains ''_PVI'' ''.../T01CCV_BXX_10m.jp2''"
    by (simp add: string_defs)
  have h2: "asset_media_type ''.../T01CCV_BXX_10m.jp2'' None = Inr JPEG2000"
    by (simp add: asset_media_type_def string_defs)
  have h3: "extract_gsd sample_env ''.../T01CCV_BXX_10m.jp2'' = Inr 10"
    by (simp add: sample_env_def sample_extract_gsd_def string_defs)
  have h4: "band_id_search ''.../T01CCV_BXX_10m.jp2'' = Some ''BXX''"
    by (simp add: string_defs)
  have h5: "SENTINEL_BANDS sample_env ''BXX'' = None"
    by (simp add: sample_env_def sample_bands_def)
  have h6: "(Map.empty :: int \<rightharpoonup> int \<times> int) 10 = None"
    by simp
  have h7: "[10 \<mapsto> (10980, 10980)] (10 :: int) = Some (10980 :: int, 10980 :: int)"
    by simp
  have h8: "transform_from_bbox sample_env [499980, 6090220, 609780, 6200020] [10980, 10980]
       = Inr [10, 0, 499980, 0, - 10, 6200020]"
    by (simp add: sample_env_def sample_transform_from_bbox_def)
  note r = unknown_band_is_key_error
      [where ?r2s = Map.empty and ?r2s' = "[10 \<mapsto> (10980, 10980)]"
         and ?b = "[499980, 6090220, 609780, 6200020]" and ?rows = 10980 and ?cols = 10980
         and ?t = "[10, 0, 499980, 0, - 10, 6200020]",
       OF h1 h2 h3 h4 h5]
  have c1: "image_asset_from_href sample_env ''.../T01CCV_BXX_10m.jp2'' Map.empty
        [499980, 6090220, 609780, 6200020] None = Inl (KeyError (IntKey 10))"
    using conjunct1 [OF r] h6 by (rule mp)
  have c2: "image_asset_from_href sample_env ''.../T01CCV_BXX_10m.jp2''
        [10 \<mapsto> (10980, 10980)] [499980, 6090220, 609780, 6200020] None
      = Inl (KeyError (StrKey ''BXX''))"
    using conjunct2 [OF r] h7 h8 by blast
  show ?thesis
    using h1 h2 h3 h4 h5 h6 c1 h7 h8 c2 by (intro conjI)
qed

text \<open>
  C6, as stated, fails: the slice \<open>href[-7:-4]\<close> is not the three characters before the
  extension when the extension has five characters. The path \<open>g/T01CCV_TCI_10.tiff\<close>
  has the extension \<open>.tiff\<close>, the three characters before it are \<open>_10\<close>, and the key
  is \<open>visual-10.\<close>.
\<close>

theorem suffix_tiff_counterexample:
  "splitext ''g/T01CCV_TCI_10.tiff'' = (''g/T01CCV_TCI_10'', ''.tiff'')
   \<and> fst (projr (image_asset_from_href sample_env ''g/T01CCV_TCI_10.tiff''
                    [10 \<mapsto> (10980, 10980)] [499980, 6090220, 609780, 6200020] None))
       = ''visual-10.''
   \<and> isl (image_asset_from_href sample_env ''g/T01CCV_TCI_10.tiff''
             [10 \<mapsto> (10980, 10980)] [499980, 6090220, 609780, 6200020] None) = False
   \<and> drop (length ''g/T01CCV_TCI_10'' - 3) ''g/T01CCV_TCI_10'' = ''_10''
   \<and> slice_m7_m4 ''g/T01CCV_TCI_10.tiff'' = ''10.''"
  by (simp add: classifier_defs string_defs sample_defs)

text \<open>
  C6, amended. For every href that the classifier classifies as true-color composite,
  aerosol, water vapor or scene classification (no \<open>_PVI\<close>, no band pattern, and the
  first of \<open>_TCI_\<close>, \<open>_AOT_\<close>, \<open>_WVP_\<close>, \<open>_SCL_\<close> that the href contains), the key is the
  role prefix \<open>visual\<close>, \<open>AOT\<close>, \<open>WVP\<close> or \<open>SCL\<close>, a hyphen and the slice \<open>href[-7:-4]\<close>.
  That slice is the (up to) three characters immediately before the file extension
  whenever the extension has exactly four characters, as \<open>.jp2\<close> and \<open>.tif\<close> have.
\<close>

theorem auxiliary_key_suffix:
  assumes "image_asset_from_href E h r2s b mt = Inr (k, a)"
    and "\<not> str_contains ''_PVI'' h"
    and "band_id_search h = None"
  shows "(str_contains ''_TCI_'' h \<longrightarrow> k = ''visual-'' @ slice_m7_m4 h)
       \<and> (\<not> str_contains ''_TCI_'' h \<and> str_contains ''_AOT_'' h \<longrightarrow>
            k = ''AOT-'' @ slice_m7_m4 h)
       \<and> (\<not> str_contains ''_TCI_'' h \<and> \<not> str_contains ''_AOT_'' h
            \<and> str_contains ''_WVP_'' h \<longrightarrow> k = ''WVP-'' @ slice_m7_m4 h)
       \<and> (\<not> str_contains ''_TCI_'' h \<and> \<not> str_contains ''_AOT_'' h
            \<and> \<not> str_contains ''_WVP_'' h \<and> str_contains ''_SCL_'' h \<longrightarrow>
            k = ''SCL-'' @ slice_m7_m4 h)
       \<and> (length (snd (splitext h)) = 4 \<longrightarrow>
            slice_m7_m4 h
              = drop (length (fst (splitext h)) - 3) (fst (splitext h)))"
proof -
  have aux: "auxiliary_asset E h (media_type a) f = Inr (k, a) \<Longrightarrow>
      (str_contains ''_TCI_'' h \<longrightarrow> k = ''visual-'' @ slice_m7_m4 h)
       \<and> (\<not> str_contains ''_TCI_'' h \<and> str_contains ''_AOT_'' h \<longrightarrow>
            k = ''AOT-'' @ slice_m7_m4 h)
       \<and> (\<not> str_contains ''_TCI_'' h \<and> \<not> str_contains ''_AOT_'' h
            \<and> str_contains ''_WVP_'' h \<longrightarrow> k = ''WVP-'' @ slice_m7_m4 h)
       \<and> (\<not> str_contains ''_TCI_'' h \<and> \<not> str_contains ''_AOT_'' h
            \<and> \<not> str_contains ''_WVP_'' h \<and> str_contains ''_SCL_'' h \<longrightarrow>
            k = ''SCL-'' @ slice_m7_m4 h)" for f
    by (auto simp: auxiliary_asset_def split: if_splits sum.splits)
  from assms obtain f where "auxiliary_asset E h (media_type a) f = Inr (k, a)"
    using asset_media_type_result [OF assms(1)]
    by (auto simp: image_asset_from_href_def split: sum.splits option.splits prod.splits)
  from aux [OF this] have keys:
    "(str_contains ''_TCI_'' h \<longrightarrow> k = ''visual-'' @ slice_m7_m4 h)
       \<and> (\<not> str_contains ''_TCI_'' h \<and> str_contains ''_AOT_'' h \<longrightarrow>
            k = ''AOT-'' @ slice_m7_m4 h)
       \<and> (\<not> str_contains ''_TCI_'' h \<and> \<not> str_contains ''_AOT_'' h
            \<and> str_contains ''_WVP_'' h \<longrightarrow> k = ''WVP-'' @ slice_m7_m4 h)
       \<and> (\<not> str_contains ''_TCI_'' h \<and> \<not> str_contains ''_AOT_'' h
            \<and> \<not> str_contains ''_WVP_'' h \<and> str_contains ''_SCL_'' h \<longrightarrow>
            k = ''SCL-'' @ slice_m7_m4 h)" .
  have suffix: "length (snd (splitext h)) = 4 \<longrightarrow>
      slice_m7_m4 h = drop (length (fst (splitext h)) - 3) (fst (splitext h))"
  proof
    assume len: "length (snd (splitext h)) = 4"
    have "h = fst (splitext h) @ snd (splitext h)"
      by (rule splitext_append) simp
    then have "slice_m7_m4 h = slice_m7_m4 (fst (splitext h) @ snd (splitext h))"
      by simp
    also have "\<dots> = drop (length (fst (splitext h)) - 3) (fst (splitext h))"
      using len by (rule slice_m7_m4_ext4)
    finally show "slice_m7_m4 h = drop (length (fst (splitext h)) - 3) (fst (splitext h))" .
  qed
  from keys suffix show ?thesis by blast
qed

theorem auxiliary_key_suffix_witness:
  "image_asset_from_href sample_env ''g/T01CCV_TCI_10m.jp2''
        [10 \<mapsto> (10980, 10980), 20 \<mapsto> (5490, 5490), 60 \<mapsto> (1830, 1830)]
        [499980, 6090220, 609780, 6200020] None
      = Inr (''visual-10m'', snd (projr (image_asset_from_href sample_env ''g/T01CCV_TCI_10m.jp2''
        [10 \<mapsto> (10980, 10980), 20 \<mapsto> (5490, 5490), 60 \<mapsto> (1830, 1830)]
        [499980, 6090220, 609780, 6200020] None)))
   \<and> \<not> str_contains ''_PVI'' ''g/T01CCV_TCI_10m.jp2''
   \<and> band_id_search ''g/T01CCV_TCI_10m.jp2'' = None
   \<and> str_contains ''_TCI_'' ''g/T01CCV_TCI_10m.jp2''
   \<and> length (snd (splitext ''g/T01CCV_TCI_10m.jp2'')) = 4
   \<and> ''visual-10m'' = ''visual-'' @ slice_m7_m4 ''g/T01CCV_TCI_10m.jp2''
   \<and> slice_m7_m4 ''g/T01CCV_TCI_10m.jp2'' = drop (length (fst (splitext ''g/T01CCV_TCI_10m.jp2'')) - 3) (fst (splitext ''g/T01CCV_TCI_10m.jp2''))
   \<and> image_asset_from_href sample_env ''g/T01CCV_AOT_20m.jp2''
        [10 \<mapsto> (10980, 10980), 20 \<mapsto> (5490, 5490), 60 \<mapsto> (1830, 1830)]
        [499980, 6090220, 609780, 6200020] None
      = Inr (''AOT-20m'', snd (projr (image_asset_from_href sample_env ''g/T01CCV_AOT_20m.jp2''
        [10 \<mapsto> (10980, 10980), 20 \<mapsto> (5490, 5490), 60 \<mapsto> (1830, 1830)]
        [499980, 6090220, 609780, 6200020] None)))
   \<and> \<not> str_contains ''_PVI'' ''g/T01CCV_AOT_20m.jp2''
   \<and> band_id_search ''g/T01CCV_AOT_20m.jp2'' = None
   \<and> \<not> str_contains ''_TCI_'' ''g/T01CCV_AOT_20m.jp2''
   \<and> str_contains ''_AOT_'' ''g/T01CCV_AOT_20m.jp2''
   \<and> length (snd (splitext ''g/T01CCV_AOT_20m.jp2'')) = 4
   \<and> ''AOT-20m'' = ''AOT-'' @ slice_m7_m4 ''g/T01CCV_AOT_20m.jp2''
   \<and> slice_m7_m4 ''g/T01CCV_AOT_20m.jp2'' = drop (length (fst (splitext ''g/T01CCV_AOT_20m.jp2'')) - 3) (fst (splitext ''g/T01CCV_AOT_20m.jp2''))
   \<and> image_asset_from_href sample_env ''g/T01CCV_WVP_60m.jp2''
        [10 \<mapsto> (10980, 10980), 20 \<mapsto> (5490, 5490), 60 \<mapsto> (1830, 1830)]
        [499980, 6090220, 609780, 6200020] None
      = Inr (''WVP-60m'', snd (projr (image_asset_from_href sample_env ''g/T01CCV_WVP_60m.jp2''
        [10 \<mapsto> (10980, 10980), 20 \<mapsto> (5490, 5490), 60 \<mapsto> (1830, 1830)]
        [499980, 6090220, 609780, 6200020] None)))
   \<and> \<not> str_contains ''_PVI'' ''g/T01CCV_WVP_60m.jp2''
   \<and> band_id_search ''g/T01CCV_WVP_60m.jp2'' = None
   \<and> \<not> str_contains ''_TCI_'' ''g/T01CCV_WVP_60m.jp2''
   \<and> \<not> str_contains ''_AOT_'' ''g/T01CCV_WVP_60m.jp2''
   \<and> str_contains ''_WVP_'' ''g/T01CCV_WVP_60m.jp2''
   \<and> length (snd (splitext ''g/T01CCV_WVP_60m.jp2'')) = 4
   \<and> ''WVP-60m'' = ''WVP-'' @ slice_m7_m4 ''g/T01CCV_WVP_60m.jp2''
   \<and> slice_m7_m4 ''g/T01CCV_WVP_60m.jp2'' = drop (length (fst (splitext ''g/T01CCV_WVP_60m.jp2'')) - 3) (fst (splitext ''g/T01CCV_WVP_60m.jp2''))
   \<and> image_asset_from_href sample_env ''g/T01CCV_SCL_20m.tif''
        [10 \<mapsto> (10980, 10980), 20 \<mapsto> (5490, 5490), 60 \<mapsto> (1830, 1830)]
        [499980, 6090220, 609780, 6200020] None
      = Inr (''SCL-20m'', snd (projr (image_asset_from_href sample_env ''g/T01CCV_SCL_20m.tif''
        [10 \<mapsto> (10980, 10980), 20 \<mapsto> (5490, 5490), 60 \<mapsto> (1830, 1830)]
        [499980, 6090220, 609780, 6200020] None)))
   \<and> \<not> str_contains ''_PVI'' ''g/T01CCV_SCL_20m.tif''
   \<and> band_id_search ''g/T01CCV_SCL_20m.tif'' = None
   \<and> \<not> str_contains ''_TCI_'' ''g/T01CCV_SCL_20m.tif''
   \<and> \<not> str_contains ''_AOT_'' ''g/T01CCV_SCL_20m.tif''
   \<and> \<not> str_contains ''_WVP_'' ''g/T01CCV_SCL_20m.tif''
   \<and> str_contains ''_SCL_'' ''g/T01CCV_SCL_20m.tif''
   \<and> length (snd (splitext ''g/T01CCV_SCL_20m.tif'')) = 4
   \<and> ''SCL-20m'' = ''SCL-'' @ slice_m7_m4 ''g/T01CCV_SCL_20m.tif''
   \<and> slice_m7_m4 ''g/T01CCV_SCL_20m.tif'' = drop (length (fst (splitext ''g/T01CCV_SCL_20m.tif'')) - 3) (fst (splitext ''g/T01CCV_SCL_20m.tif''))"
proof -
  have tci_res: "image_asset_from_href sample_env ''g/T01CCV_TCI_10m.jp2''
        [10 \<mapsto> (10980, 10980), 20 \<mapsto> (5490, 5490), 60 \<mapsto> (1830, 1830)]
        [499980, 6090220, 609780, 6200020] None
      = Inr (''visual-10m'', snd (projr (image_asset_from_href sample_env ''g/T01CCV_TCI_10m.jp2''
        [10 \<mapsto> (10980, 10980), 20 \<mapsto> (5490, 5490), 60 \<mapsto> (1830, 1830)]
        [499980, 6090220, 609780, 6200020] None)))"
    by (simp add: classifier_defs string_defs sample_defs)
  have tci_pvi: "\<not> str_contains ''_PVI'' ''g/T01CCV_TCI_10m.jp2''"
    by (simp add: string_defs)
  have tci_band: "band_id_search ''g/T01CCV_TCI_10m.jp2'' = None"
    by (simp add: string_defs)
  have tci_m0: "str_contains ''_TCI_'' ''g/T01CCV_TCI_10m.jp2''"
    by (simp add: string_defs)
  have tci_len: "length (snd (splitext ''g/T01CCV_TCI_10m.jp2'')) = 4"
    by (simp add: string_defs)
  note tci_thm = auxiliary_key_suffix [OF tci_res tci_pvi tci_band]
  have tci_key: "''visual-10m'' = ''visual-'' @ slice_m7_m4 ''g/T01CCV_TCI_10m.jp2''"
    using tci_thm tci_m0 by blast
  have tci_suf: "slice_m7_m4 ''g/T01CCV_TCI_10m.jp2'' = drop (length (fst (splitext ''g/T01CCV_TCI_10m.jp2'')) - 3) (fst (splitext ''g/T01CCV_TCI_10m.jp2''))"
    using tci_thm tci_len by blast
  have tci_all: "image_asset_from_href sample_env ''g/T01CCV_TCI_10m.jp2''
        [10 \<mapsto> (10980, 10980), 20 \<mapsto> (5490, 5490), 60 \<mapsto> (1830, 1830)]
        [499980, 6090220, 609780, 6200020] None
      = Inr (''visual-10m'', snd (projr (image_asset_from_href sample_env ''g/T01CCV_TCI_10m.jp2''
        [10 \<mapsto> (10980, 10980), 20 \<mapsto> (5490, 5490), 60 \<mapsto> (1830, 1830)]
        [499980, 6090220, 609780, 6200020] None)))
   \<and> \<not> str_contains ''_PVI'' ''g/T01CCV_TCI_10m.jp2''
   \<and> band_id_search ''g/T01CCV_TCI_10m.jp2'' = None
   \<and> str_contains ''_TCI_'' ''g/T01CCV_TCI_10m.jp2''
   \<and> length (snd (splitext ''g/T01CCV_TCI_10m.jp2'')) = 4
   \<and> ''visual-10m'' = ''visual-'' @ slice_m7_m4 ''g/T01CCV_TCI_10m.jp2''
   \<and> slice_m7_m4 ''g/T01CCV_TCI_10m.jp2'' = drop (length (fst (splitext ''g/T01CCV_TCI_10m.jp2'')) - 3) (fst (splitext ''g/T01CCV_TCI_10m.jp2''))"
    using tci_res tci_pvi tci_band tci_m0 tci_len tci_key tci_suf by (intro conjI)
  have aot_res: "image_asset_from_href sample_env ''g/T01CCV_AOT_20m.jp2''
        [10 \<mapsto> (10980, 10980), 20 \<mapsto> (5490, 5490), 60 \<mapsto> (1830, 1830)]
        [499980, 6090220, 609780, 6200020] None
      = Inr (''AOT-20m'', snd (projr (image_asset_from_href sample_env ''g/T01CCV_AOT_20m.jp2''
        [10 \<mapsto> (10980, 10980), 20 \<mapsto> (5490, 5490), 60 \<mapsto> (1830, 1830)]
        [499980, 6090220, 609780, 6200020] None)))"
    by (simp add: classifier_defs string_defs sample_defs)
  have aot_pvi: "\<not> str_contains ''_PVI'' ''g/T01CCV_AOT_20m.jp2''"
    by (simp add: string_defs)
  have aot_band: "band_id_search ''g/T01CCV_AOT_20m.jp2'' = None"
    by (simp add: string_defs)
  have aot_m0: "\<not> str_contains ''_TCI_'' ''g/T01CCV_AOT_20m.jp2''"
    by (simp add: string_defs)
  have aot_m1: "str_contains ''_AOT_'' ''g/T01CCV_AOT_20m.jp2''"
    by (simp add: string_defs)
  have aot_len: "length (snd (splitext ''g/T01CCV_AOT_20m.jp2'')) = 4"
    by (simp add: string_defs)
  note aot_thm = auxiliary_key_suffix [OF aot_res aot_pvi aot_band]
  have aot_key: "''AOT-20m'' = ''AOT-'' @ slice_m7_m4 ''g/T01CCV_AOT_20m.jp2''"
    using aot_thm aot_m0 aot_m1 by blast
  have aot_suf: "slice_m7_m4 ''g/T01CCV_AOT_20m.jp2'' = drop (length (fst (splitext ''g/T01CCV_AOT_20m.jp2'')) - 3) (fst (splitext ''g/T01CCV_AOT_20m.jp2''))"
    using aot_thm aot_len by blast
  have aot_all: "image_asset_from_href sample_env ''g/T01CCV_AOT_20m.jp2''
        [10 \<mapsto> (10980, 10980), 20 \<mapsto> (5490, 5490), 60 \<mapsto> (1830, 1830)]
        [499980, 6090220, 609780, 6200020] None
      = Inr (''AOT-20m'', snd (projr (image_asset_from_href sample_env ''g/T01CCV_AOT_20m.jp2''
        [10 \<mapsto> (10980, 10980), 20 \<mapsto> (5490, 5490), 60 \<mapsto> (1830, 1830)]
        [499980, 6090220, 609780, 6200020] None)))
   \<and> \<not> str_contains ''_PVI'' ''g/T01CCV_AOT_20m.jp2''
   \<and> band_id_search ''g/T01CCV_AOT_20m.jp2'' = None
   \<and> \<not> str_contains ''_TCI_'' ''g/T01CCV_AOT_20m.jp2''
   \<and> str_contains ''_AOT_'' ''g/T01CCV_AOT_20m.jp2''
   \<and> length (snd (splitext ''g/T01CCV_AOT_20m.jp2'')) = 4
   \<and> ''AOT-20m'' = ''AOT-'' @ slice_m7_m4 ''g/T01CCV_AOT_20m.jp2''
   \<and> slice_m7_m4 ''g/T01CCV_AOT_20m.jp2'' = drop (length (fst (splitext ''g/T01CCV_AOT_20m.jp2'')) - 3) (fst (splitext ''g/T01CCV_AOT_20m.jp2''))"
    using aot_res aot_pvi aot_band aot_m0 aot_m1 aot_len aot_key aot_suf by (intro conjI)
  have wvp_res: "image_asset_from_href sample_env ''g/T01CCV_WVP_60m.jp2''
        [10 \<mapsto> (10980, 10980), 20 \<mapsto> (5490, 5490), 60 \<mapsto> (1830, 1830)]
        [499980, 6090220, 609780, 6200020] None
      = Inr (''WVP-60m'', snd (projr (image_asset_from_href sample_env ''g/T01CCV_WVP_60m.jp2''
        [10 \<mapsto> (10980, 10980), 20 \<mapsto> (5490, 5490), 60 \<mapsto> (1830, 1830)]
        [499980, 6090220, 609780, 6200020] None)))"
    by (simp add: classifier_defs string_defs sample_defs)
  have wvp_pvi: "\<not> str_contains ''_PVI'' ''g/T01CCV_WVP_60m.jp2''"
    by (simp add: string_defs)
  have wvp_band: "band_id_search ''g/T01CCV_WVP_60m.jp2'' = None"
    by (simp add: string_defs)
  have wvp_m0: "\<not> str_contains ''_TCI_'' ''g/T01CCV_WVP_60m.jp2''"
    by (simp add: string_defs)
  have wvp_m1: "\<not> str_contains ''_AOT_'' ''g/T01CCV_WVP_60m.jp2''"
    by (simp add: string_defs)
  have wvp_m2: "str_contains ''_WVP_'' ''g/T01CCV_WVP_60m.jp2''"
    by (simp add: string_defs)
  have wvp_len: "length (snd (splitext ''g/T01CCV_WVP_60m.jp2'')) = 4"
    by (simp add: string_defs)
  note wvp_thm = auxiliary_key_suffix [OF wvp_res wvp_pvi wvp_band]
  have wvp_key: "''WVP-60m'' = ''WVP-'' @ slice_m7_m4 ''g/T01CCV_WVP_60m.jp2''"
    using wvp_thm wvp_m0 wvp_m1 wvp_m2 by blast
  have wvp_suf: "slice_m7_m4 ''g/T01CCV_WVP_60m.jp2'' = drop (length (fst (splitext ''g/T01CCV_WVP_60m.jp2'')) - 3) (fst (splitext ''g/T01CCV_WVP_60m.jp2''))"
    using wvp_thm wvp_len by blast
  have wvp_all: "image_asset_from_href sample_env ''g/T01CCV_WVP_60m.jp2''
        [10 \<mapsto> (10980, 10980), 20 \<mapsto> (5490, 5490), 60 \<mapsto> (1830, 1830)]
        [499980, 6090220, 609780, 6200020] None
      = Inr (''WVP-60m'', snd (projr (image_asset_from_href sample_env ''g/T01CCV_WVP_60m.jp2''
        [10 \<mapsto> (10980, 10980), 20 \<mapsto> (5490, 5490), 60 \<mapsto> (1830, 1830)]
        [499980, 6090220, 609780, 6200020] None)))
   \<and> \<not> str_contains ''_PVI'' ''g/T01CCV_WVP_60m.jp2''
   \<and> band_id_search ''g/T01CCV_WVP_60m.jp2'' = None
   \<and> \<not> str_contains ''_TCI_'' ''g/T01CCV_WVP_60m.jp2''
   \<and> \<not> str_contains ''_AOT_'' ''g/T01CCV_WVP_60m.jp2''
   \<and> str_contains ''_WVP_'' ''g/T01CCV_WVP_60m.jp2''
   \<and> length (snd (splitext ''g/T01CCV_WVP_60m.jp2'')) = 4
   \<and> ''WVP-60m'' = ''WVP-'' @ slice_m7_m4 ''g/T01CCV_WVP_60m.jp2''
   \<and> slice_m7_m4 ''g/T01CCV_WVP_60m.jp2'' = drop (length (fst (splitext ''g/T01CCV_WVP_60m.jp2'')) - 3) (fst (splitext ''g/T01CCV_WVP_60m.jp2''))"
    using wvp_res wvp_pvi wvp_band wvp_m0 wvp_m1 wvp_m2 wvp_len wvp_key wvp_suf by (intro conjI)
  have scl_res: "image_asset_from_href sample_env ''g/T01CCV_SCL_20m.tif''
        [10 \<mapsto> (10980, 10980), 20 \<mapsto> (5490, 5490), 60 \<mapsto> (1830, 1830)]
        [499980, 6090220, 609780, 6200020] None
      = Inr (''SCL-20m'', snd (projr (image_asset_from_href sample_env ''g/T01CCV_SCL_20m.tif''
        [10 \<mapsto> (10980, 10980), 20 \<mapsto> (5490, 5490), 60 \<mapsto> (1830, 1830)]
        [499980, 6090220, 609780, 6200020] None)))"
    by (simp add: classifier_defs string_defs sample_defs)
  have scl_pvi: "\<not> str_contains ''_PVI'' ''g/T01CCV_SCL_20m.tif''"
    by (simp add: string_defs)
  have scl_band: "band_id_search ''g/T01CCV_SCL_20m.tif'' = None"
    by (simp add: string_defs)
  have scl_m0: "\<not> str_contains ''_TCI_'' ''g/T01CCV_SCL_20m.tif''"
    by (simp add: string_defs)
  have scl_m1: "\<not> str_contains ''_AOT_'' ''g/T01CCV_SCL_20m.tif''"
    by (simp add: string_defs)
  have scl_m2: "\<not> str_contains ''_WVP_'' ''g/T01CCV_SCL_20m.tif''"
    by (simp add: string_defs)
  have scl_m3: "str_contains ''_SCL_'' ''g/T01CCV_SCL_20m.tif''"
    by (simp add: string_defs)
  have scl_len: "length (snd (splitext ''g/T01CCV_SCL_20m.tif'')) = 4"
    by (simp add: string_defs)
  note scl_thm = auxiliary_key_suffix [OF scl_res scl_pvi scl_band]
  have scl_key: "''SCL-20m'' = ''SCL-'' @ slice_m7_m4 ''g/T01CCV_SCL_20m.tif''"
    using scl_thm scl_m0 scl_m1 scl_m2 scl_m3 by blast
  have scl_suf: "slice_m7_m4 ''g/T01CCV_SCL_20m.tif'' = drop (length (fst (splitext ''g/T01CCV_SCL_20m.tif'')) - 3) (fst (splitext ''g/T01CCV_SCL_20m.tif''))"
    using scl_thm scl_len by blast
  have scl_all: "image_asset_from_href sample_env ''g/T01CCV_SCL_20m.tif''
        [10 \<mapsto> (10980, 10980), 20 \<mapsto> (5490, 5490), 60 \<mapsto> (1830, 1830)]
        [499980, 6090220, 609780, 6200020] None
      = Inr (''SCL-20m'', snd (projr (image_asset_from_href sample_env ''g/T01CCV_SCL_20m.tif''
        [10 \<mapsto> (10980, 10980), 20 \<mapsto> (5490, 5490), 60 \<mapsto> (1830, 1830)]
        [499980, 6090220, 609780, 6200020] None)))
   \<and> \<not> str_contains ''_PVI'' ''g/T01CCV_SCL_20m.tif''
   \<and> band_id_search ''g/T01CCV_SCL_20m.tif'' = None
   \<and> \<not> str_contains ''_TCI_'' ''g/T01CCV_SCL_20m.tif''
   \<and> \<not> str_contains ''_AOT_'' ''g/T01CCV_SCL_20m.tif''
   \<and> \<not> str_contains ''_WVP_'' ''g/T01CCV_SCL_20m.tif''
   \<and> str_contains ''_SCL_'' ''g/T01CCV_SCL_20m.tif''
   \<and> length (snd (splitext ''g/T01CCV_SCL_20m.tif'')) = 4
   \<and> ''SCL-20m'' = ''SCL-'' @ slice_m7_m4 ''g/T01CCV_SCL_20m.tif''
   \<and> slice_m7_m4 ''g/T01CCV_SCL_20m.tif'' = drop (length (fst (splitext ''g/T01CCV_SCL_20m.tif'')) - 3) (fst (splitext ''g/T01CCV_SCL_20m.tif''))"
    using scl_res scl_pvi scl_band scl_m0 scl_m1 scl_m2 scl_m3 scl_len scl_key scl_suf by (intro conjI)
  show ?thesis
    using tci_all aot_all wvp_all scl_all by blast
qed

section \<open>The item assembler: properties, EPSG code, asset keys\<close>

lemmas item_defs = create_item_def set_property_def add_asset_def dict_def OrbitState_def
  sample_manifest_def sample_product_def sample_granule_def

lemma str_lower_DESCENDING: "str_lower ''DESCENDING'' = ''descending''"
  by code_simp

lemma str_lower_UNKNOWN: "str_lower ''UNKNOWN'' = ''unknown''"
  by code_simp

lemma OrbitState_value_inverse: "OrbitState s = Inr os \<Longrightarrow> OrbitState_value os = s"
  by (auto simp: OrbitState_def split: if_splits)

lemma add_asset_properties: "properties (add_asset ka it) = properties it"
  by (simp add: add_asset_def)

lemma add_image_assets_properties:
  "add_image_assets kas it = Inr it' \<Longrightarrow> properties it' = properties it"
  by (induction kas arbitrary: it) (auto simp: add_asset_properties split: if_splits)

lemma sample_item_returned:
  "isl (create_item sample_env ''g.SAFE'' None sample_manifest sample_product sample_granule)
     = False"
  by (simp add: item_defs classifier_defs path_defs sample_defs str_lower_DESCENDING
      str_lower_jp2)

text \<open>
  C7, as stated, fails: the property map of the record is not the merge of the two
  metadata dictionaries. The setters of the common metadata and of the extensions have
  written into the same map before the merge is applied; the record of the sample holds
  the platform under the key \<open>platform\<close>, which neither dictionary has.
\<close>

theorem properties_not_only_merge_counterexample:
  "isl (create_item sample_env ''g.SAFE'' None sample_manifest sample_product sample_granule)
     = False
   \<and> properties (projr (create_item sample_env ''g.SAFE'' None sample_manifest sample_product
                           sample_granule)) ''platform'' = Some (PStr ''sentinel-2a'')
   \<and> (product_metadata_dict sample_product ++ granule_metadata_dict sample_granule)
        ''platform'' = None"
  by (simp add: item_defs classifier_defs path_defs sample_defs str_lower_DESCENDING
      str_lower_jp2)

text \<open>
  C7, amended. In every record that \<open>create_item\<close> returns, the property map is the map
  that the setters of lines 60 to 83 wrote (providers, platform, constellation,
  instruments, cloud cover, orbit state, relative orbit, EPSG code), updated with the
  merge of the product reader's dictionary followed by the granule reader's dictionary.
  So a key of the granule dictionary has the granule's value, also when the product
  dictionary has the key too; a key of the product dictionary alone has the product's
  value; and a key of neither has what the setters wrote.
\<close>

theorem properties_update_with_merge:
  assumes "create_item E gh ap sm pm gm = Inr it"
  shows "properties it
           = ([''providers'' \<mapsto> PProviders [SENTINEL_PROVIDER E],
               ''platform'' \<mapsto> PStr (product_platform pm),
               ''constellation'' \<mapsto> PStr (SENTINEL_CONSTELLATION E),
               ''instruments'' \<mapsto> PStrList (SENTINEL_INSTRUMENTS E),
               ''eo:cloud_cover'' \<mapsto> PFloat (cloudiness_percentage gm),
               ''sat:orbit_state'' \<mapsto> PStr (str_lower (orbit_state pm)),
               ''sat:relative_orbit'' \<mapsto> PInt (relative_orbit pm)]
               (''proj:epsg'' := map_option PInt (epsg gm)))
             ++ (product_metadata_dict pm ++ granule_metadata_dict gm)
       \<and> (\<forall>k v. granule_metadata_dict gm k = Some v \<longrightarrow> properties it k = Some v)
       \<and> (\<forall>k v. granule_metadata_dict gm k = None \<and> product_metadata_dict pm k = Some v
                 \<longrightarrow> properties it k = Some v)"
proof -
  from assms obtain os where os: "OrbitState (str_lower (orbit_state pm)) = Inr os"
    by (auto simp: create_item_def Let_def split: sum.splits)
  have v: "OrbitState_value os = str_lower (orbit_state pm)"
    using os by (rule OrbitState_value_inverse)
  have eq: "properties it
           = ([''providers'' \<mapsto> PProviders [SENTINEL_PROVIDER E],
               ''platform'' \<mapsto> PStr (product_platform pm),
               ''constellation'' \<mapsto> PStr (SENTINEL_CONSTELLATION E),
               ''instruments'' \<mapsto> PStrList (SENTINEL_INSTRUMENTS E),
               ''eo:cloud_cover'' \<mapsto> PFloat (cloudiness_percentage gm),
               ''sat:orbit_state'' \<mapsto> PStr (str_lower (orbit_state pm)),
               ''sat:relative_orbit'' \<mapsto> PInt (relative_orbit pm)]
               (''proj:epsg'' := map_option PInt (epsg gm)))
             ++ (product_metadata_dict pm ++ granule_metadata_dict gm)"
    using assms os v
    by (auto simp: create_item_def Let_def set_property_def add_asset_properties
        dest!: add_image_assets_properties split: sum.splits option.splits)
  show ?thesis
    unfolding eq by (simp add: map_add_def)
qed

theorem properties_update_with_merge_witness:
  "create_item sample_env ''g.SAFE'' None sample_manifest sample_product sample_granule
     = Inr (projr (create_item sample_env ''g.SAFE'' None sample_manifest sample_product
                     sample_granule))
   \<and> product_metadata_dict sample_product ''s2:generation_time'' = Some (PStr ''product'')
   \<and> granule_metadata_dict sample_granule ''s2:generation_time'' = Some (PStr ''granule'')
   \<and> properties (projr (create_item sample_env ''g.SAFE'' None sample_manifest sample_product
                           sample_granule)) ''s2:generation_time'' = Some (PStr ''granule'')
   \<and> granule_metadata_dict sample_granule ''s2:mgrs_tile'' = Some (PStr ''01CCV'')
   \<and> properties (projr (create_item sample_env ''g.SAFE'' None sample_manifest sample_product
                           sample_granule)) ''s2:mgrs_tile'' = Some (PStr ''01CCV'')
   \<and> granule_metadata_dict sample_granule ''s2:product_type'' = None
   \<and> product_metadata_dict sample_product ''s2:product_type'' = Some (PStr ''S2MSI2A'')
   \<and> properties (projr (create_item sample_env ''g.SAFE'' None sample_manifest sample_product
                           sample_granule)) ''s2:product_type'' = Some (PStr ''S2MSI2A'')
   \<and> properties (projr (create_item sample_env ''g.SAFE'' None sample_manifest sample_product
                           sample_granule)) ''sat:orbit_state'' = Some (PStr ''descending'')
   \<and> properties (projr (create_item sample_env ''g.SAFE'' None sample_manifest sample_product
                           sample_granule)) ''proj:epsg'' = Some (PInt 32701)"
proof -
  let ?it = "projr (create_item sample_env ''g.SAFE'' None sample_manifest sample_product
                      sample_granule)"
  have h: "create_item sample_env ''g.SAFE'' None sample_manifest sample_product sample_granule
             = Inr ?it"
    using sample_item_returned by simp
  note r = properties_update_with_merge [OF h]
  have p1: "product_metadata_dict sample_product ''s2:generation_time'' = Some (PStr ''product'')"
    by (simp add: sample_product_def)
  have g1: "granule_metadata_dict sample_granule ''s2:generation_time'' = Some (PStr ''granule'')"
    by (simp add: sample_granule_def)
  have g2: "granule_metadata_dict sample_granule ''s2:mgrs_tile'' = Some (PStr ''01CCV'')"
    by (simp add: sample_granule_def)
  have g3: "granule_metadata_dict sample_granule ''s2:product_type'' = None"
    by (simp add: sample_granule_def)
  have p3: "product_metadata_dict sample_product ''s2:product_type'' = Some (PStr ''S2MSI2A'')"
    by (simp add: sample_product_def)
  have c1: "properties ?it ''s2:generation_time'' = Some (PStr ''granule'')"
    using r g1 by blast
  have c2: "properties ?it ''s2:mgrs_tile'' = Some (PStr ''01CCV'')"
    using r g2 by blast
  have c3: "properties ?it ''s2:product_type'' = Some (PStr ''S2MSI2A'')"
    using r g3 p3 by blast
  have eq: "properties ?it
           = ([''providers'' \<mapsto> PProviders [SENTINEL_PROVIDER sample_env],
               ''platform'' \<mapsto> PStr (product_platform sample_product),
               ''constellation'' \<mapsto> PStr (SENTINEL_CONSTELLATION sample_env),
               ''instruments'' \<mapsto> PStrList (SENTINEL_INSTRUMENTS sample_env),
               ''eo:cloud_cover'' \<mapsto> PFloat (cloudiness_percentage sample_granule),
               ''sat:orbit_state'' \<mapsto> PStr (str_lower (orbit_state sample_product)),
               ''sat:relative_orbit'' \<mapsto> PInt (relative_orbit sample_product)]
               (''proj:epsg'' := map_option PInt (epsg sample_granule)))
             ++ (product_metadata_dict sample_product ++ granule_metadata_dict sample_granule)"
    using r by (rule conjunct1)
  have c4: "properties ?it ''sat:orbit_state'' = Some (PStr ''descending'')"
    unfolding eq
    by (simp add: map_add_def sample_product_def sample_granule_def str_lower_DESCENDING)
  have c5: "properties ?it ''proj:epsg'' = Some (PInt 32701)"
    unfolding eq by (simp add: map_add_def sample_product_def sample_granule_def)
  show ?thesis
    using h p1 g1 c1 g2 c2 g3 p3 c3 c4 c5 by (intro conjI)
qed

text \<open>
  C3, as stated, fails: the orbit state is converted to the enumeration (line 78) before
  the EPSG code is tested (line 84). With no EPSG code and an orbit state that is none of
  the values of the enumeration, \<open>create_item\<close> fails with the error of the enumeration,
  not with the error that names the granule href.
\<close>

theorem missing_epsg_counterexample:
  "epsg (sample_granule\<lparr>epsg := None\<rparr>) = None
   \<and> create_item sample_env ''g.SAFE'' None sample_manifest
        (sample_product\<lparr>orbit_state := ''UNKNOWN''\<rparr>) (sample_granule\<lparr>epsg := None\<rparr>)
      = Inl (InvalidOrbitState ''unknown'')"
  by (simp add: item_defs str_lower_UNKNOWN)

text \<open>
  C3, amended. When the granule reader yields no EPSG code, \<open>create_item\<close> returns no
  record; and when moreover the orbit state of the product, in lower case, is a value of
  the enumeration (ascending, descending, geostationary), the failure is the error that
  names the granule href. The function has no state beyond its result: all its
  arguments are values, so a failure leaves nothing changed for the caller.
\<close>

theorem missing_epsg_fails:
  assumes "epsg gm = None"
  shows "isl (create_item E gh ap sm pm gm)
       \<and> (str_lower (orbit_state pm) \<in> {''ascending'', ''descending'', ''geostationary''} \<longrightarrow>
            create_item E gh ap sm pm gm = Inl (MissingEPSG gh))"
  using assms
  by (auto simp: create_item_def Let_def OrbitState_def set_property_def split: sum.splits)

theorem missing_epsg_fails_witness:
  "epsg (sample_granule\<lparr>epsg := None\<rparr>) = None
   \<and> str_lower (orbit_state sample_product) \<in> {''ascending'', ''descending'', ''geostationary''}
   \<and> isl (create_item sample_env ''g.SAFE'' None sample_manifest sample_product
             (sample_granule\<lparr>epsg := None\<rparr>))
   \<and> create_item sample_env ''g.SAFE'' None sample_manifest sample_product
        (sample_granule\<lparr>epsg := None\<rparr>) = Inl (MissingEPSG ''g.SAFE'')"
proof -
  have h1: "epsg (sample_granule\<lparr>epsg := None\<rparr>) = None"
    by simp
  have h2: "str_lower (orbit_state sample_product)
              \<in> {''ascending'', ''descending'', ''geostationary''}"
    by (simp add: sample_product_def str_lower_DESCENDING)
  note r = missing_epsg_fails [OF h1, of sample_env "''g.SAFE''" None sample_manifest
      sample_product]
  have c1: "isl (create_item sample_env ''g.SAFE'' None sample_manifest sample_product
             (sample_granule\<lparr>epsg := None\<rparr>))"
    using r by (rule conjunct1)
  have c2: "create_item sample_env ''g.SAFE'' None sample_manifest sample_product
        (sample_granule\<lparr>epsg := None\<rparr>) = Inl (MissingEPSG ''g.SAFE'')"
    using conjunct2 [OF r] h2 by (rule mp)
  show ?thesis
    using h1 h2 c1 c2 by (intro conjI)
qed

text \<open>
  C1, on the code. Two image paths of one product, the band \<open>B04\<close> at 10 m and at 20 m,
  both classify to the key \<open>B04\<close>. \<open>create_item\<close> raises nothing: \<open>dict\<close> keeps the
  later pair, the \<open>assert\<close> sees one key \<open>B04\<close>, and the record that is returned holds the
  20 m asset under \<open>B04\<close> and no asset for the 10 m image.
\<close>

theorem duplicate_band_key_is_overwritten:
  "fst (projr (image_asset_from_href sample_env
                 (path_join ''g.SAFE''
                    ''GRANULE/L2A_T01CCV/IMG_DATA/R10m/T01CCV_20160327T204522_B04_10m.jp2'')
                 (resolution_to_shape sample_granule) (proj_bbox sample_granule) None))
     = ''B04''
   \<and> fst (projr (image_asset_from_href sample_env
                 (path_join ''g.SAFE''
                    ''GRANULE/L2A_T01CCV/IMG_DATA/R20m/T01CCV_20160327T204522_B04_20m.jp2'')
                 (resolution_to_shape sample_granule) (proj_bbox sample_granule) None))
     = ''B04''
   \<and> isl (create_item sample_env ''g.SAFE'' None sample_manifest
            (sample_product\<lparr>image_paths :=
               [''GRANULE/L2A_T01CCV/IMG_DATA/R10m/T01CCV_20160327T204522_B04_10m.jp2'',
                ''GRANULE/L2A_T01CCV/IMG_DATA/R20m/T01CCV_20160327T204522_B04_20m.jp2'']\<rparr>)
            sample_granule) = False
   \<and> map (\<lambda>ka. (fst ka, href (snd ka)))
        (assets (projr (create_item sample_env ''g.SAFE'' None sample_manifest
            (sample_product\<lparr>image_paths :=
               [''GRANULE/L2A_T01CCV/IMG_DATA/R10m/T01CCV_20160327T204522_B04_10m.jp2'',
                ''GRANULE/L2A_T01CCV/IMG_DATA/R20m/T01CCV_20160327T204522_B04_20m.jp2'']\<rparr>)
            sample_granule)))
     = [(''safe-manifest'', ''g.SAFE/manifest.safe''),
        (''product-metadata'', ''g.SAFE/MTD_MSIL2A.xml''),
        (''granule-metadata'', ''g.SAFE/GRANULE/L2A_T01CCV/MTD_TL.xml''),
        (''inspire-metadata'', ''g.SAFE/INSPIRE.xml''),
        (''datastrip-metadata'', ''g.SAFE/DATASTRIP/DS/MTD_DS.xml''),
        (''B04'',
         ''g.SAFE/GRANULE/L2A_T01CCV/IMG_DATA/R20m/T01CCV_20160327T204522_B04_20m.jp2'')]"
  by (simp add: item_defs classifier_defs path_defs sample_defs str_lower_DESCENDING
      str_lower_jp2)

text \<open>
  The thumbnail is inserted under the key \<open>preview\<close> by \<open>add_asset\<close> with no test
  (lines 129 to 134). An image path with the marker \<open>_PVI\<close> classifies to the same key,
  and the record that is returned holds the thumbnail under \<open>preview\<close> and no asset for
  the image.
\<close>

lemma thumbnail_overwrites_preview_image:
  "fst (projr (image_asset_from_href sample_env
                 (path_join ''g.SAFE''
                    ''GRANULE/L2A_T01CCV/QI_DATA/T01CCV_20160327T204522_PVI.jp2'')
                 (resolution_to_shape sample_granule) (proj_bbox sample_granule) None))
     = ''preview''
   \<and> isl (create_item sample_env ''g.SAFE'' None
            (sample_manifest\<lparr>thumbnail_href := Some ''g.SAFE/preview.tif''\<rparr>)
            (sample_product\<lparr>image_paths :=
               [''GRANULE/L2A_T01CCV/QI_DATA/T01CCV_20160327T204522_PVI.jp2'']\<rparr>)
            sample_granule) = False
   \<and> map (\<lambda>ka. (fst ka, href (snd ka)))
        (assets (projr (create_item sample_env ''g.SAFE'' None
            (sample_manifest\<lparr>thumbnail_href := Some ''g.SAFE/preview.tif''\<rparr>)
            (sample_product\<lparr>image_paths :=
               [''GRANULE/L2A_T01CCV/QI_DATA/T01CCV_20160327T204522_PVI.jp2'']\<rparr>)
            sample_granule)))
     = [(''safe-manifest'', ''g.SAFE/manifest.safe''),
        (''product-metadata'', ''g.SAFE/MTD_MSIL2A.xml''),
        (''granule-metadata'', ''g.SAFE/GRANULE/L2A_T01CCV/MTD_TL.xml''),
        (''inspire-metadata'', ''g.SAFE/INSPIRE.xml''),
        (''datastrip-metadata'', ''g.SAFE/DATASTRIP/DS/MTD_DS.xml''),
        (''preview'', ''g.SAFE/preview.tif'')]"
  by (simp add: item_defs classifier_defs path_defs sample_defs str_lower_DESCENDING
      str_lower_jp2)

end
